theory Spec2Isabelle
  imports Complex_Main "HOL-Library.AList" "HOL-Library.Sublist"
begin

section \<open>Python values and built-ins used by \<open>model_developement.py\<close>\<close>

text \<open>
  The exceptions that the modelled code can raise. A function of the source that can
  raise returns \<open>error + 'a\<close>, with \<open>Inl\<close> for the exception.
\<close>

datatype error =
  ValueError | ZeroDivisionError | TypeError | KeyError | NameError | IndexError
  | AttributeError | FileExistsError

text \<open>
  \<open>self.all_models\<close> is dynamically typed: the constructor stores the string \<open>""\<close> in
  it, \<open>build_all_models\<close> replaces that by a list of Keras models. The methods only use
  \<open>len\<close>, \<open>list\<close>, slicing and iteration on it, which strings and lists both provide; the
  results are again strings, lists, or lists of lists. \<open>'m\<close> is the type of a model.
\<close>

datatype 'm py = Str string | Model 'm | Lst "'m py list"

fun py_len :: "'m py \<Rightarrow> error + nat" where
  "py_len (Str s) = Inr (length s)"
| "py_len (Lst xs) = Inr (length xs)"
| "py_len (Model m) = Inl TypeError"

text \<open>Iterating a string yields its one-character strings.\<close>

fun py_iter :: "'m py \<Rightarrow> error + 'm py list" where
  "py_iter (Str s) = Inr (map (\<lambda>c. Str [c]) s)"
| "py_iter (Lst xs) = Inr xs"
| "py_iter (Model m) = Inl TypeError"

definition py_list :: "'m py \<Rightarrow> error + 'm py" where
  "py_list v = (case py_iter v of Inl e \<Rightarrow> Inl e | Inr xs \<Rightarrow> Inr (Lst xs))"

text \<open>
  \<open>seq[i:j]\<close>: a negative bound counts from the end, and both bounds are clamped to
  \<open>[0, len]\<close>; an empty range gives the empty sequence.
\<close>

definition clamp_index :: "nat \<Rightarrow> int \<Rightarrow> nat" where
  "clamp_index n i = (if i < 0 then nat (max 0 (int n + i)) else min n (nat i))"

definition slice_list :: "'a list \<Rightarrow> int \<Rightarrow> int \<Rightarrow> 'a list" where
  "slice_list xs i j =
     (let a = clamp_index (length xs) i; b = clamp_index (length xs) j
      in take (b - a) (drop a xs))"

fun py_slice :: "'m py \<Rightarrow> int \<Rightarrow> int \<Rightarrow> error + 'm py" where
  "py_slice (Str s) i j = Inr (Str (slice_list s i j))"
| "py_slice (Lst xs) i j = Inr (Lst (slice_list xs i j))"
| "py_slice (Model m) i j = Inl TypeError"

text \<open>\<open>range(k)\<close> for an integer \<open>k\<close>: empty when \<open>k \<le> 0\<close>.\<close>

definition py_range :: "int \<Rightarrow> int list" where
  "py_range k = map int [0..<nat k]"

text \<open>
  \<open>ceil(a / b)\<close> on integers: true division raises on a zero divisor. The quotient is
  taken exactly; Python's \<open>a / b\<close> rounds it to a double, which leaves the ceiling
  unchanged for the list lengths the program can hold (below \<open>2^53\<close>).
\<close>

definition ceil_div :: "int \<Rightarrow> int \<Rightarrow> error + int" where
  "ceil_div a b =
     (if b = 0 then Inl ZeroDivisionError else Inr \<lceil>(of_int a :: real) / of_int b\<rceil>)"

text \<open>Running a fallible function over a list stops at the first exception.\<close>

fun mapM :: "('a \<Rightarrow> error + 'b) \<Rightarrow> 'a list \<Rightarrow> error + 'b list" where
  "mapM f [] = Inr []"
| "mapM f (x # xs) =
     (case f x of Inl e \<Rightarrow> Inl e
      | Inr y \<Rightarrow> (case mapM f xs of Inl e \<Rightarrow> Inl e | Inr ys \<Rightarrow> Inr (y # ys)))"

subsection \<open>Decimal strings\<close>

text \<open>\<open>str(i)\<close>, as used by the f-strings that build keys, directory and file names.\<close>

definition digit_char :: "nat \<Rightarrow> char" where
  "digit_char d = char_of (48 + d)"

fun str_nat :: "nat \<Rightarrow> string" where
  "str_nat n = (if n < 10 then [digit_char n] else str_nat (n div 10) @ [digit_char (n mod 10)])"

declare str_nat.simps [simp del]

definition str_int :: "int \<Rightarrow> string" where
  "str_int i = (if i < 0 then CHR ''-'' # str_nat (nat (- i)) else str_nat (nat i))"

text \<open>
  \<open>int(s)\<close> on a string: an optional sign followed by at least one decimal digit;
  anything else is a \<open>ValueError\<close>. (Python also accepts surrounding blanks and
  underscores between digits; the program only parses the digits of its own keys.)
\<close>

definition is_digit :: "char \<Rightarrow> bool" where
  "is_digit c = ((48::nat) \<le> of_char c \<and> of_char c \<le> (57::nat))"

definition digit_val :: "char \<Rightarrow> nat" where
  "digit_val c = of_char c - (48::nat)"

definition nat_of_digits :: "string \<Rightarrow> nat" where
  "nat_of_digits s = foldl (\<lambda>acc c. 10 * acc + digit_val c) 0 s"

definition parse_nat :: "string \<Rightarrow> error + nat" where
  "parse_nat s = (if s \<noteq> [] \<and> list_all is_digit s then Inr (nat_of_digits s) else Inl ValueError)"

fun py_int :: "string \<Rightarrow> error + int" where
  "py_int [] = Inl ValueError"
| "py_int (c # s) =
     (if c = CHR ''-'' then (case parse_nat s of Inl e \<Rightarrow> Inl e | Inr n \<Rightarrow> Inr (- int n))
      else if c = CHR ''+'' then (case parse_nat s of Inl e \<Rightarrow> Inl e | Inr n \<Rightarrow> Inr (int n))
      else (case parse_nat (c # s) of Inl e \<Rightarrow> Inl e | Inr n \<Rightarrow> Inr (int n)))"

text \<open>\<open>s.split(c)\<close> for a one-character separator; the result is never empty.\<close>

fun split_char :: "char \<Rightarrow> string \<Rightarrow> string list" where
  "split_char c [] = [[]]"
| "split_char c (x # xs) =
     (if x = c then [] # split_char c xs
      else (let r = split_char c xs in (x # hd r) # tl r))"

text \<open>
  \<open>s.replace(old, new)\<close>: every non-overlapping occurrence of \<open>old\<close>, scanning from the
  left. The program calls it with the non-empty pattern \<open>"models"\<close>.
\<close>

fun py_replace :: "string \<Rightarrow> string \<Rightarrow> string \<Rightarrow> string" where
  "py_replace old new [] = []"
| "py_replace old new (x # xs) =
     (if old \<noteq> [] \<and> prefix old (x # xs)
      then new @ py_replace old new (drop (length old) (x # xs))
      else x # py_replace old new xs)"

text \<open>\<open>xs[i]\<close> for a non-negative literal index.\<close>

definition index :: "'a list \<Rightarrow> nat \<Rightarrow> error + 'a" where
  "index xs i = (if i < length xs then Inr (xs ! i) else Inl IndexError)"

section \<open>Configuration and the class \<open>Model_Development\<close>\<close>

text \<open>
  The module \<open>parameters\<close> is configuration outside the file; the code reads these
  fields of its two objects. The learning rate is only passed through to the optimiser.
\<close>

record 'r CNN_params =
  initial_learning_rate :: 'r
  folds :: nat
  epochs :: int
  batch_size :: int

record CNN_hyper_params =
  filter_num1 :: "int list"
  filter_num2 :: "int list"
  num_of_dense :: "int list"
  dense_len1 :: "int list"
  dense_len2 :: "int list"

record ('d, 'r, 'm) Model_Development =
  data :: 'd
  params :: "'r CNN_params"
  hyper_params :: CNN_hyper_params
  mode :: string
  all_models :: "'m py"

text \<open>\<open>__init__\<close>: rejects a running mode other than \<open>"test"\<close> and \<open>"full"\<close>.\<close>

definition init ::
  "'d \<Rightarrow> 'r CNN_params \<Rightarrow> CNN_hyper_params \<Rightarrow> string \<Rightarrow> error + ('d, 'r, 'm) Model_Development" where
  "init input_data model_params model_hp_params running_mode =
     (if \<not> (running_mode = ''test'' \<or> running_mode = ''full'') then Inl ValueError
      else Inr \<lparr>data = input_data, params = model_params, hyper_params = model_hp_params,
                mode = running_mode, all_models = Str ''''\<rparr>)"

subsection \<open>The partitioner\<close>

text \<open>
  \<open>partitions_split\<close>: when the stored sequence is no longer than \<open>partition_length\<close> the
  result is \<open>list(self.all_models)\<close>, the elements themselves; otherwise it is the list of
  the slices \<open>all_models[x * L : (x + 1) * L]\<close> for \<open>x\<close> in \<open>range(ceil(len / L))\<close>.
\<close>

definition partitions_split :: "('d, 'r, 'm) Model_Development \<Rightarrow> int \<Rightarrow> error + 'm py" where
  "partitions_split self partition_length =
     (case py_len (all_models self) of Inl e \<Rightarrow> Inl e
      | Inr n \<Rightarrow>
          if int n \<le> partition_length then py_list (all_models self)
          else (case ceil_div (int n) partition_length of Inl e \<Rightarrow> Inl e
                | Inr k \<Rightarrow>
                    (case mapM (\<lambda>x. py_slice (all_models self)
                                        (x * partition_length) ((x + 1) * partition_length))
                               (py_range k) of
                       Inl e \<Rightarrow> Inl e
                     | Inr partitions \<Rightarrow> Inr (Lst partitions))))"

text \<open>
  A dictionary keeps its keys in insertion order; \<open>d.update({k: v})\<close> replaces the value
  of an existing key in place and appends a new key, which is \<open>AList.update\<close>.
\<close>

type_synonym ('k, 'v) dict = "('k \<times> 'v) list"

definition models_key :: "int \<Rightarrow> string" where
  "models_key k = ''models'' @ str_int k"

definition dict_partitions ::
  "('d, 'r, 'm) Model_Development \<Rightarrow> int \<Rightarrow> error + (string, 'm py) dict" where
  "dict_partitions self partition_length =
     (case py_len (all_models self) of Inl e \<Rightarrow> Inl e
      | Inr n \<Rightarrow>
          if int n \<le> partition_length
          then (case partitions_split self partition_length of Inl e \<Rightarrow> Inl e
                | Inr p \<Rightarrow> Inr [(models_key partition_length, p)])
          else (case partitions_split self partition_length of Inl e \<Rightarrow> Inl e
                | Inr p \<Rightarrow>
                    (case py_iter p of Inl e \<Rightarrow> Inl e
                     | Inr parts \<Rightarrow>
                         Inr (fold (\<lambda>(ind, partition) all_partitions.
                                      AList.update (models_key ((int ind + 1) * partition_length))
                                        partition all_partitions)
                                   (enumerate 0 parts) []))))"

text \<open>
  \<open>get_partition_number\<close>: the number after the \<open>s\<close> of every key of
  \<open>self.dict_partitions()\<close>, which is called with the default partition length 60.
\<close>

definition key_number :: "string \<Rightarrow> error + int" where
  "key_number key =
     (case index (split_char CHR ''s'' key) 1 of Inl e \<Rightarrow> Inl e | Inr part \<Rightarrow> py_int part)"

definition get_partition_number :: "('d, 'r, 'm) Model_Development \<Rightarrow> error + int list" where
  "get_partition_number self =
     (case dict_partitions self 60 of Inl e \<Rightarrow> Inl e
      | Inr d \<Rightarrow> mapM key_number (map fst d))"


subsection \<open>The combination generator\<close>

text \<open>
  \<open>all_combinations\<close>: \<open>itertools.product\<close> of the five ranges, the first range
  outermost; \<open>"test"\<close> mode keeps the first ten. The body has no \<open>raise\<close>; with a mode
  that is neither \<open>"full"\<close> nor \<open>"test"\<close> it falls off its end and returns Python's
  \<open>None\<close>, which is \<open>None\<close> here.
\<close>

type_synonym combination = "int \<times> int \<times> int \<times> int \<times> int"

definition product5 ::
  "int list \<Rightarrow> int list \<Rightarrow> int list \<Rightarrow> int list \<Rightarrow> int list \<Rightarrow> combination list" where
  "product5 as bs cs ds es =
     concat (map (\<lambda>a. concat (map (\<lambda>b. concat (map (\<lambda>c. concat (map (\<lambda>d.
       map (\<lambda>e. (a, b, c, d, e)) es) ds)) cs)) bs)) as)"

definition all_combinations :: "('d, 'r, 'm) Model_Development \<Rightarrow> combination list option" where
  "all_combinations self =
     (let combinations =
            product5 (filter_num1 (hyper_params self)) (filter_num2 (hyper_params self))
              (num_of_dense (hyper_params self)) (dense_len1 (hyper_params self))
              (dense_len2 (hyper_params self))
      in if mode self = ''full'' then Some combinations
         else if mode self = ''test'' then Some (take 10 combinations)
         else None)"

subsection \<open>The model factory\<close>

text \<open>
  A Keras layer with the arguments the code passes, in the order of the source:
  \<open>Conv1D filters kernel_size strides padding use_bias input_shape kernel_initializer
  bias_initializer\<close>, \<open>PReLU alpha_initializer\<close>, \<open>Dense units use_bias
  kernel_initializer bias_initializer\<close>. \<open>'i\<close> is the initialiser object, \<open>'s\<close> an input
  shape. The checks Keras makes on these arguments are not part of the file.
\<close>

datatype ('i, 's) layer =
  Conv1D (filters: int) (kernel_size: int) int string bool "'s option" 'i 'i
  | PReLU 'i
  | MaxPool1D
  | Flatten
  | Dense (units: int) bool 'i 'i

record ('i, 's, 'r) keras_model =
  layers :: "('i, 's) layer list"
  learning_rate :: "'r option"
  loss :: "string option"
  metrics :: "string list"

definition Sequential :: "('i, 's, 'r) keras_model" where
  "Sequential = \<lparr>layers = [], learning_rate = None, loss = None, metrics = []\<rparr>"

definition add :: "('i, 's) layer \<Rightarrow> ('i, 's, 'r) keras_model \<Rightarrow> ('i, 's, 'r) keras_model" where
  "add l model = model\<lparr>layers := layers model @ [l]\<rparr>"

text \<open>\<open>floor(filter_size / 2)\<close>.\<close>

definition floor_half :: "int \<Rightarrow> int" where
  "floor_half filter_size = \<lfloor>(of_int filter_size :: real) / 2\<rfloor>"

text \<open>
  \<open>model_builder\<close>. \<open>input_shape\<close> stands for \<open>self.data.shape[1:]\<close>, read from the NumPy
  array by the parameter \<open>shape_tail\<close>.
\<close>

definition dense_block ::
  "int \<Rightarrow> int \<Rightarrow> 'i \<Rightarrow> int \<Rightarrow> ('i, 's, 'r) keras_model \<Rightarrow> ('i, 's, 'r) keras_model" where
  "dense_block dense1_length dense2_length init_method i model =
     (if i < 1
      then add (PReLU init_method) (add (Dense dense1_length True init_method init_method) model)
      else add (PReLU init_method) (add (Dense dense2_length True init_method init_method) model))"

definition model_builder ::
  "('d \<Rightarrow> 's) \<Rightarrow> ('d, 'r, 'm) Model_Development \<Rightarrow> int \<Rightarrow> int \<Rightarrow> int \<Rightarrow> int \<Rightarrow> int \<Rightarrow> 'i \<Rightarrow> int
     \<Rightarrow> ('i, 's, 'r) keras_model" where
  "model_builder shape_tail self conv1_filter_num conv2_filter_num num_of_dense_blocks
       dense1_length dense2_length init_method filter_size =
     (let model = Sequential;
          model = add (Conv1D conv1_filter_num filter_size 1 ''same'' True
                         (Some (shape_tail (data self))) init_method init_method) model;
          model = add (PReLU init_method) model;
          model = add MaxPool1D model;
          model = add (Conv1D conv2_filter_num (floor_half filter_size) 1 ''same'' True
                         None init_method init_method) model;
          model = add (PReLU init_method) model;
          model = add MaxPool1D model;
          model = add Flatten model;
          model = fold (dense_block dense1_length dense2_length init_method)
                    (py_range num_of_dense_blocks) model;
          model = add (Dense 1 True init_method init_method) model;
          model = add (PReLU init_method) model
      in model\<lparr>learning_rate := Some (initial_learning_rate (params self)),
               loss := Some ''MAPE'', metrics := [''MAE'', ''RMSE'']\<rparr>)"

text \<open>
  \<open>build_all_models\<close>: one model per combination, with the default \<open>filter_size = 5\<close>,
  stored in \<open>self.all_models\<close>. Iterating \<open>None\<close> is a \<open>TypeError\<close>.
\<close>

definition build_all_models ::
  "('d \<Rightarrow> 's) \<Rightarrow> ('d, 'r, ('i, 's, 'r) keras_model) Model_Development \<Rightarrow> 'i
     \<Rightarrow> error + ('d, 'r, ('i, 's, 'r) keras_model) Model_Development" where
  "build_all_models shape_tail self initialisation =
     (case all_combinations self of None \<Rightarrow> Inl TypeError
      | Some combinations \<Rightarrow>
          Inr (self\<lparr>all_models :=
                 Lst (map (\<lambda>(c0, c1, c2, c3, c4).
                             Model (model_builder shape_tail self c0 c1 c2 c3 c4 initialisation 5))
                        combinations)\<rparr>))"

subsection \<open>The reporter\<close>

text \<open>
  \<open>history.history\<close> is a dictionary from metric name to the per-epoch values (\<open>'v\<close>).
  A pandas \<open>DataFrame\<close> is its number of rows and its columns in order; a cell is an
  integer, a metric value or \<open>NaN\<close>.
\<close>

type_synonym 'v history = "(string, 'v list) dict"

datatype 'v cell = IntCell int | Val 'v | NaN

record 'v frame =
  nrows :: nat
  cols :: "(string, 'v cell list) dict"

text \<open>\<open>pd.DataFrame()\<close>.\<close>

definition empty_frame :: "'v frame" where
  "empty_frame = \<lparr>nrows = 0, cols = []\<rparr>"

text \<open>
  \<open>df[key] = values\<close> for a list of values: a frame without rows takes the length of a
  non-empty list and fills its other columns with \<open>NaN\<close>; otherwise the length has to be
  the number of rows (\<open>ValueError\<close>). \<open>df[key] = c\<close> for a scalar fills the column.
\<close>

definition set_column :: "'v frame \<Rightarrow> string \<Rightarrow> 'v cell list \<Rightarrow> error + 'v frame" where
  "set_column df key values =
     (if nrows df = 0 \<and> values \<noteq> []
      then Inr \<lparr>nrows = length values,
                cols = AList.update key values
                         (map (\<lambda>(c, _). (c, replicate (length values) NaN)) (cols df))\<rparr>
      else if length values \<noteq> nrows df then Inl ValueError
      else Inr (df\<lparr>cols := AList.update key values (cols df)\<rparr>))"

definition set_scalar :: "'v frame \<Rightarrow> string \<Rightarrow> 'v cell \<Rightarrow> 'v frame" where
  "set_scalar df key c = df\<lparr>cols := AList.update key (replicate (nrows df) c) (cols df)\<rparr>"

text \<open>
  \<open>df.append(other)\<close>: the rows of \<open>other\<close> below those of \<open>df\<close>; the columns of \<open>df\<close>
  followed by the new ones of \<open>other\<close>, a column missing on one side filled with \<open>NaN\<close>.
\<close>

definition column :: "'v frame \<Rightarrow> string \<Rightarrow> 'v cell list" where
  "column df c = (case map_of (cols df) c of Some vs \<Rightarrow> vs | None \<Rightarrow> replicate (nrows df) NaN)"

definition append_df :: "'v frame \<Rightarrow> 'v frame \<Rightarrow> 'v frame" where
  "append_df df other =
     \<lparr>nrows = nrows df + nrows other,
      cols = map (\<lambda>c. (c, column df c @ column other c))
               (map fst (cols df) @
                filter (\<lambda>c. c \<notin> set (map fst (cols df))) (map fst (cols other)))\<rparr>"

fun foldM :: "('s \<Rightarrow> 'a \<Rightarrow> error + 's) \<Rightarrow> 'a list \<Rightarrow> 's \<Rightarrow> error + 's" where
  "foldM f [] s = Inr s"
| "foldM f (x # xs) s = (case f s x of Inl e \<Rightarrow> Inl e | Inr s' \<Rightarrow> foldM f xs s')"

text \<open>
  \<open>reporting\<close>: the columns \<open>models\<close> and \<open>epochs\<close>, then one column per key of
  \<open>results\<close>; \<open>results["loss"]\<close> gives the number of epochs and is a \<open>KeyError\<close> when
  the key is missing.
\<close>

definition reporting :: "int \<Rightarrow> 'v history \<Rightarrow> error + 'v frame" where
  "reporting model results =
     (let report = \<lparr>nrows = 0, cols = [(''models'', []), (''epochs'', [])]\<rparr>
      in case map_of results ''loss'' of None \<Rightarrow> Inl KeyError
         | Some loss_values \<Rightarrow>
             (case set_column report ''epochs''
                     (map (\<lambda>e. IntCell (int e)) [1..<length loss_values + 1]) of
                Inl e \<Rightarrow> Inl e
              | Inr report \<Rightarrow>
                  foldM (\<lambda>report (key, values). set_column report key (map Val values))
                    results (set_scalar report ''models'' (IntCell model))))"

subsection \<open>The file system and the resume guard\<close>

text \<open>
  What the training functions change outside the object: the names in the current
  directory, the model files and report files written, the printed lines, and the calls
  made to the external \<open>fit\<close>, each with the history it returned.
\<close>

record ('x, 'y, 'c) fit_args =
  arg_x :: "'x list"
  arg_y :: "'y list"
  arg_verbose :: int
  arg_epochs :: int
  arg_batch_size :: int
  arg_shuffle :: bool
  arg_validation_data :: "'x list \<times> 'y list"
  arg_callbacks :: 'c

record ('m, 'v, 'x, 'y, 'c) world =
  listdir :: "string list"
  saved_models :: "(string, 'm) dict"
  csv_files :: "(string, 'v frame) dict"
  stdout :: "string list"
  fit_calls :: "(('x, 'y, 'c) fit_args \<times> 'v history) list"

definition print :: "string \<Rightarrow> ('m, 'v, 'x, 'y, 'c) world \<Rightarrow> ('m, 'v, 'x, 'y, 'c) world" where
  "print line w = w\<lparr>stdout := stdout w @ [line]\<rparr>"

definition mkdir ::
  "string \<Rightarrow> ('m, 'v, 'x, 'y, 'c) world \<Rightarrow> error + ('m, 'v, 'x, 'y, 'c) world" where
  "mkdir name w =
     (if name \<in> set (listdir w) then Inl FileExistsError
      else Inr (w\<lparr>listdir := listdir w @ [name]\<rparr>))"

definition to_csv ::
  "'v frame \<Rightarrow> string \<Rightarrow> ('m, 'v, 'x, 'y, 'c) world \<Rightarrow> ('m, 'v, 'x, 'y, 'c) world" where
  "to_csv df name w =
     w\<lparr>listdir := (if name \<in> set (listdir w) then listdir w else listdir w @ [name]),
       csv_files := AList.update name df (csv_files w)\<rparr>"

definition save_model ::
  "'m \<Rightarrow> string \<Rightarrow> ('m, 'v, 'x, 'y, 'c) world \<Rightarrow> ('m, 'v, 'x, 'y, 'c) world" where
  "save_model model filepath w = w\<lparr>saved_models := AList.update filepath model (saved_models w)\<rparr>"

text \<open>
  \<open>existence_check\<close>: does any name of \<open>os.listdir()\<close> start with the item, its
  \<open>"models"\<close> replaced by \<open>"report"\<close>?
\<close>

definition existence_check :: "string \<Rightarrow> ('m, 'v, 'x, 'y, 'c) world \<Rightarrow> bool" where
  "existence_check item w =
     (let file_name = py_replace ''models'' ''report'' item
      in list_ex (\<lambda>file. prefix file_name file) (listdir w))"

subsection \<open>The cross-validation trainer\<close>

text \<open>
  The local variables \<open>report\<close> and \<open>history\<close> of the two training functions.
  \<open>history\<close> is unbound until the first \<open>fit\<close> returns; reading it unbound is a
  \<open>NameError\<close>.
\<close>

record 'v locals =
  report :: "'v frame"
  history :: "'v history option"

text \<open>
  The loop \<open>for i in range(len(series_cv))\<close> for one element of the partition.
  \<open>series_cv[i]\<close> is the pair of the train and the test indices of fold \<open>i\<close>, and only
  the lengths of the two are used: \<open>fold_fit_args\<close> is the keyword arguments of the call,
  with \<open>a[:k]\<close> as \<open>take k a\<close>. \<open>fit\<close> is the external Keras call: it updates the
  model in place and returns the history; an element that is not a model has no \<open>fit\<close>
  (\<open>AttributeError\<close>). Failures inside Keras are outside the file.
\<close>

definition fold_fit_args ::
  "('d, 'r, 'm) Model_Development \<Rightarrow> 'x list \<Rightarrow> 'y list \<Rightarrow> 'c \<Rightarrow> nat list \<times> nat list
     \<Rightarrow> ('x, 'y, 'c) fit_args" where
  "fold_fit_args self training_data targets callback_list fold_i =
     \<lparr>arg_x = take (length (fst fold_i)) training_data,
      arg_y = take (length (fst fold_i)) targets,
      arg_verbose = 0,
      arg_epochs = epochs (params self),
      arg_batch_size = batch_size (params self),
      arg_shuffle = False,
      arg_validation_data = (take (length (snd fold_i)) training_data,
                             take (length (snd fold_i)) targets),
      arg_callbacks = callback_list\<rparr>"

fun fit_folds ::
  "('m \<Rightarrow> ('x, 'y, 'c) fit_args \<Rightarrow> 'm \<times> 'v history) \<Rightarrow> ('d, 'r, 'm) Model_Development
     \<Rightarrow> 'x list \<Rightarrow> 'y list \<Rightarrow> 'c \<Rightarrow> (nat list \<times> nat list) list
     \<Rightarrow> 'm py \<Rightarrow> ('m, 'v, 'x, 'y, 'c) world \<times> 'v locals
     \<Rightarrow> error + ('m py \<times> ('m, 'v, 'x, 'y, 'c) world \<times> 'v locals)" where
  "fit_folds fit self training_data targets callback_list [] model (w, l) = Inr (model, w, l)"
| "fit_folds fit self training_data targets callback_list (fold_i # rest) model (w, l) =
     (case model of
        Model m \<Rightarrow>
          (let args = fold_fit_args self training_data targets callback_list fold_i;
               (m', h) = fit m args
           in fit_folds fit self training_data targets callback_list rest (Model m')
                (w\<lparr>fit_calls := fit_calls w @ [(args, h)]\<rparr>, l\<lparr>history := Some h\<rparr>))
      | _ \<Rightarrow> Inl AttributeError)"

text \<open>
  The body of \<open>for ind, model in enumerate(tqdm(...))\<close>, the same text in both training
  functions: fit on every fold, append the report of \<open>history.history\<close> under the index
  \<open>ind + partition_num - 60\<close>, save the model under the same index. Keras rejects saving
  an element that is not a model; the exception is taken to be an \<open>AttributeError\<close>.
\<close>

definition model_file :: "int \<Rightarrow> string \<Rightarrow> int \<Rightarrow> string" where
  "model_file partition_num now model_index =
     ''saved_models'' @ str_int partition_num @ ''_'' @ now @ ''/''
       @ ''model_'' @ str_int model_index @ ''.h5''"

definition train_model ::
  "('m \<Rightarrow> ('x, 'y, 'c) fit_args \<Rightarrow> 'm \<times> 'v history) \<Rightarrow> ('d, 'r, 'm) Model_Development
     \<Rightarrow> 'x list \<Rightarrow> 'y list \<Rightarrow> 'c \<Rightarrow> (nat list \<times> nat list) list \<Rightarrow> int \<Rightarrow> string
     \<Rightarrow> ('m, 'v, 'x, 'y, 'c) world \<times> 'v locals \<Rightarrow> nat \<times> 'm py
     \<Rightarrow> error + (('m, 'v, 'x, 'y, 'c) world \<times> 'v locals)" where
  "train_model fit self training_data targets callback_list series_cv partition_num now s im =
     (case fit_folds fit self training_data targets callback_list series_cv (snd im) s of
        Inl e \<Rightarrow> Inl e
      | Inr (model, w, l) \<Rightarrow>
          (case history l of None \<Rightarrow> Inl NameError
           | Some h \<Rightarrow>
               (case reporting (int (fst im) + partition_num - 60) h of Inl e \<Rightarrow> Inl e
                | Inr r \<Rightarrow>
                    (case model of
                       Model m \<Rightarrow>
                         Inr (save_model m
                                (model_file partition_num now (int (fst im) + partition_num - 60)) w,
                              l\<lparr>report := append_df (report l) r\<rparr>)
                     | _ \<Rightarrow> Inl AttributeError))))"

definition train_partition ::
  "('m \<Rightarrow> ('x, 'y, 'c) fit_args \<Rightarrow> 'm \<times> 'v history) \<Rightarrow> ('d, 'r, 'm) Model_Development
     \<Rightarrow> 'x list \<Rightarrow> 'y list \<Rightarrow> 'c \<Rightarrow> (nat list \<times> nat list) list \<Rightarrow> int \<Rightarrow> string
     \<Rightarrow> 'm py list \<Rightarrow> ('m, 'v, 'x, 'y, 'c) world \<times> 'v locals
     \<Rightarrow> error + (('m, 'v, 'x, 'y, 'c) world \<times> 'v locals)" where
  "train_partition fit self training_data targets callback_list series_cv partition_num now
       models s =
     foldM (train_model fit self training_data targets callback_list series_cv partition_num now)
       (enumerate 0 models) s"

definition report_file :: "int \<Rightarrow> string \<Rightarrow> string" where
  "report_file partition_num now = ''report'' @ str_int partition_num @ ''_'' @ now @ ''.csv''"

definition models_dir :: "int \<Rightarrow> string \<Rightarrow> string" where
  "models_dir partition_num now = ''saved_models'' @ str_int partition_num @ ''_'' @ now"

text \<open>
  The body of \<open>for part in partitions\<close> of \<open>auto_grid_cv\<close>; \<open>numb_ind\<close> is the position
  of the key \<open>part\<close>.
\<close>

definition auto_grid_cv_part ::
  "('m \<Rightarrow> ('x, 'y, 'c) fit_args \<Rightarrow> 'm \<times> 'v history) \<Rightarrow> ('d, 'r, 'm) Model_Development
     \<Rightarrow> 'x list \<Rightarrow> 'y list \<Rightarrow> 'c \<Rightarrow> (nat list \<times> nat list) list
     \<Rightarrow> (string, 'm py) dict \<Rightarrow> int list \<Rightarrow> string
     \<Rightarrow> ('m, 'v, 'x, 'y, 'c) world \<times> 'v locals \<Rightarrow> nat \<times> string
     \<Rightarrow> error + (('m, 'v, 'x, 'y, 'c) world \<times> 'v locals)" where
  "auto_grid_cv_part fit self training_data targets callback_list series_cv partitions
       partition_numb now s np =
     (if existence_check (snd np) (fst s) then Inr (print ''Report already exists'' (fst s), snd s)
      else
        (case index partition_numb (fst np) of Inl e \<Rightarrow> Inl e
         | Inr partition_num \<Rightarrow>
             (case mkdir (models_dir partition_num now) (print ''New report'' (fst s)) of
                Inl e \<Rightarrow> Inl e
              | Inr w \<Rightarrow>
                  (case map_of partitions (snd np) of None \<Rightarrow> Inl KeyError
                   | Some batch \<Rightarrow>
                       (case py_iter batch of Inl e \<Rightarrow> Inl e
                        | Inr models \<Rightarrow>
                            (case train_partition fit self training_data targets callback_list
                                    series_cv partition_num now models (w, snd s) of
                               Inl e \<Rightarrow> Inl e
                             | Inr (w', l') \<Rightarrow>
                                 Inr (to_csv (report l') (report_file partition_num now) w',
                                      l')))))))"

text \<open>
  \<open>auto_grid_cv\<close>. \<open>split\<close> is \<open>TimeSeriesSplit(n_splits).split\<close> of scikit-learn and
  \<open>now\<close> the formatted time of the call. The partitions and their numbers are taken with
  the default partition length 60; \<open>report\<close> is created once, before the loop over the
  partitions.
\<close>

definition auto_grid_cv ::
  "(nat \<Rightarrow> 'x list \<Rightarrow> (nat list \<times> nat list) list)
     \<Rightarrow> ('m \<Rightarrow> ('x, 'y, 'c) fit_args \<Rightarrow> 'm \<times> 'v history) \<Rightarrow> string
     \<Rightarrow> ('d, 'r, 'm) Model_Development \<Rightarrow> 'x list \<Rightarrow> 'y list \<Rightarrow> 'c
     \<Rightarrow> ('m, 'v, 'x, 'y, 'c) world \<Rightarrow> error + ('m, 'v, 'x, 'y, 'c) world" where
  "auto_grid_cv split fit now self training_data targets callback_list w =
     (case dict_partitions self 60 of Inl e \<Rightarrow> Inl e
      | Inr partitions \<Rightarrow>
          (case get_partition_number self of Inl e \<Rightarrow> Inl e
           | Inr partition_numb \<Rightarrow>
               (let series_cv = split (folds (params self)) training_data
                in case foldM (auto_grid_cv_part fit self training_data targets callback_list
                                 series_cv partitions partition_numb now)
                          (enumerate 0 (map fst partitions))
                          (w, \<lparr>report = empty_frame, history = None\<rparr>) of
                     Inl e \<Rightarrow> Inl e
                   | Inr (w', l') \<Rightarrow> Inr w')))"

text \<open>
  \<open>manual_grid_cv\<close>: one partition (\<open>the_partition\<close>), given with its number; the directory is made and
  \<open>report\<close> created at the start of the call. (Setting the TensorFlow seed changes
  nothing that is modelled here.)
\<close>

definition manual_grid_cv ::
  "(nat \<Rightarrow> 'x list \<Rightarrow> (nat list \<times> nat list) list)
     \<Rightarrow> ('m \<Rightarrow> ('x, 'y, 'c) fit_args \<Rightarrow> 'm \<times> 'v history) \<Rightarrow> string
     \<Rightarrow> ('d, 'r, 'm) Model_Development \<Rightarrow> 'm py \<Rightarrow> int \<Rightarrow> 'x list \<Rightarrow> 'y list \<Rightarrow> 'c
     \<Rightarrow> ('m, 'v, 'x, 'y, 'c) world \<Rightarrow> error + ('m, 'v, 'x, 'y, 'c) world" where
  "manual_grid_cv split fit now self the_partition partition_num training_data targets
       callback_list w =
     (case mkdir (models_dir partition_num now) w of Inl e \<Rightarrow> Inl e
      | Inr w1 \<Rightarrow>
          (let series_cv = split (folds (params self)) training_data
           in case py_iter the_partition of Inl e \<Rightarrow> Inl e
              | Inr models \<Rightarrow>
                  (case train_partition fit self training_data targets callback_list series_cv
                          partition_num now models
                          (w1, \<lparr>report = empty_frame, history = None\<rparr>) of
                     Inl e \<Rightarrow> Inl e
                   | Inr (w', l') \<Rightarrow>
                       Inr (to_csv (report l') (report_file partition_num now) w'))))"

section \<open>Instances used in the examples\<close>

definition example_params :: "unit CNN_params" where
  "example_params = \<lparr>initial_learning_rate = (), folds = 2, epochs = 1, batch_size = 1\<rparr>"

definition example_hyper :: CNN_hyper_params where
  "example_hyper = \<lparr>filter_num1 = [4, 8], filter_num2 = [2], num_of_dense = [1],
                     dense_len1 = [16], dense_len2 = [16]\<rparr>"

definition example_self :: "nat py \<Rightarrow> (unit, unit, nat) Model_Development" where
  "example_self ms = \<lparr>data = (), params = example_params, hyper_params = example_hyper,
                       mode = ''full'', all_models = ms\<rparr>"

text \<open>A stand-in for Keras: the loss of the only epoch is the number of training rows.\<close>

definition example_fit :: "nat \<Rightarrow> (nat, nat, unit) fit_args \<Rightarrow> nat \<times> nat history" where
  "example_fit m args = (m, [(''loss'', [length (arg_x args)])])"

text \<open>The two folds that \<open>TimeSeriesSplit(n_splits=2)\<close> gives for six rows.\<close>

definition example_split :: "nat \<Rightarrow> nat list \<Rightarrow> (nat list \<times> nat list) list" where
  "example_split n training_data = [([0, 1], [2, 3]), ([0, 1, 2, 3], [4, 5])]"

definition empty_world :: "(nat, nat, nat, nat, unit) world" where
  "empty_world = \<lparr>listdir = [], saved_models = [], csv_files = [], stdout = [], fit_calls = []\<rparr>"

section \<open>Properties of the partitioner\<close>

subsection \<open>Slices and the ceiling\<close>

lemma mapM_Inr: "mapM (\<lambda>x. Inr (f x)) zs = Inr (map f zs)"
  by (induction zs) simp_all

lemma slice_list_chunk:
  assumes "0 < L"
  shows "slice_list xs (int x * L) ((int x + 1) * L) = take (nat L) (drop (x * nat L) xs)"
proof -
  have a: "nat (int x * L) = x * nat L" using assms by (simp add: nat_mult_distrib)
  have b: "nat ((int x + 1) * L) = x * nat L + nat L"
    using assms by (simp add: nat_mult_distrib nat_add_distrib distrib_right)
  have n1: "\<not> int x * L < 0" using assms by (simp add: not_less)
  have n2: "\<not> (int x + 1) * L < 0" using assms by (simp add: not_less)
  show ?thesis
    unfolding slice_list_def clamp_index_def Let_def using n1 n2
    by (simp add: a b min_def)
qed

lemma concat_chunks:
  "concat (map (\<lambda>x. take l (drop (x * l) xs)) [0..<k]) = take (k * l) xs"
proof (induction k)
  case 0
  show ?case by simp
next
  case (Suc k)
  have "take (k * l) xs @ take l (drop (k * l) xs) = take (k * l + l) xs"
    by (simp add: take_add)
  with Suc show ?case by (simp add: add.commute)
qed

lemma ceil_bounds:
  fixes n l :: nat
  assumes "0 < l" "0 < n"
  defines "k \<equiv> nat \<lceil>real n / real l\<rceil>"
  shows "n \<le> k * l" and "(k - 1) * l < n" and "0 < k"
proof -
  let ?r = "real n / real l"
  have rpos: "0 < ?r" using assms by simp
  then have cpos: "0 < \<lceil>?r\<rceil>" by simp
  then show kpos: "0 < k" by (simp add: k_def)
  have kc: "real k = of_int \<lceil>?r\<rceil>" using cpos by (simp add: k_def)
  have "?r \<le> real k" unfolding kc by (rule le_of_int_ceiling)
  then have "real n \<le> real k * real l" using assms(1) by (simp add: field_simps)
  then have "real n \<le> real (k * l)" by simp
  then show "n \<le> k * l" by (simp only: of_nat_le_iff)
  have "real k - 1 < ?r" unfolding kc using ceiling_correct[of ?r] by linarith
  then have "(real k - 1) * real l < real n" using assms(1) by (simp add: field_simps)
  moreover have "real (k - 1) = real k - 1" using kpos by (simp add: of_nat_diff)
  ultimately have "real (k - 1) * real l < real n" by (simp only:)
  then have "real ((k - 1) * l) < real n" by (simp only: of_nat_mult)
  then show "(k - 1) * l < n" by (simp only: of_nat_less_iff)
qed

text \<open>The consecutive blocks of length \<open>l\<close> of a non-empty list.\<close>

lemma blocks_props:
  fixes ms :: "'a list"
  assumes l: "0 < l" and ne: "ms \<noteq> []"
    and bs: "bs = map (\<lambda>x. take l (drop (x * l) ms)) [0..<nat \<lceil>real (length ms) / real l\<rceil>]"
  shows "concat bs = ms"
    and "int (length bs) = \<lceil>real (length ms) / real l\<rceil>"
    and "\<forall>i<length bs. bs ! i = take l (drop (i * l) ms)"
    and "\<forall>i. Suc i < length bs \<longrightarrow> length (bs ! i) = l"
    and "last bs \<noteq> []"
    and "length (last bs) \<le> l"
proof -
  define k where "k = nat \<lceil>real (length ms) / real l\<rceil>"
  have n: "0 < length ms" using ne by simp
  have k1: "length ms \<le> k * l" and k2: "(k - 1) * l < length ms" and k3: "0 < k"
    unfolding k_def using ceil_bounds[OF l n] by simp_all
  have len: "length bs = k" by (simp add: bs k_def)
  show "concat bs = ms"
    using k1 by (simp add: bs concat_chunks k_def[symmetric])
  have "0 \<le> real (length ms) / real l" by simp
  then have "0 \<le> \<lceil>real (length ms) / real l\<rceil>" by (simp only: zero_le_ceiling)
  then show "int (length bs) = \<lceil>real (length ms) / real l\<rceil>"
    by (simp add: bs del: zero_le_ceiling)
  show nth: "\<forall>i<length bs. bs ! i = take l (drop (i * l) ms)"
    by (simp add: bs)
  show "\<forall>i. Suc i < length bs \<longrightarrow> length (bs ! i) = l"
  proof (intro allI impI)
    fix i assume i: "Suc i < length bs"
    then have "Suc i \<le> k - 1" using len by simp
    then have "Suc i * l \<le> (k - 1) * l" by (rule mult_le_mono1)
    then have "i * l + l < length ms" using k2 by simp
    moreover have "bs ! i = take l (drop (i * l) ms)" using nth i by simp
    ultimately show "length (bs ! i) = l" by simp
  qed
  have nonempty: "bs \<noteq> []" using k3 len by auto
  have lst: "last bs = take l (drop ((k - 1) * l) ms)"
    using nonempty len nth k3 by (simp add: last_conv_nth)
  show "last bs \<noteq> []" using k2 l by (simp add: lst)
  show "length (last bs) \<le> l" by (simp add: lst)
qed

subsection \<open>\<open>partitions_split\<close> on a list of models\<close>

lemma partitions_split_small:
  assumes am: "all_models self = Lst (map Model ms)" and small: "int (length ms) \<le> L"
  shows "partitions_split self L = Inr (Lst (map Model ms))"
  using small by (simp add: partitions_split_def am py_list_def)

lemma partitions_split_large:
  assumes L: "0 < L" and am: "all_models self = Lst (map Model ms)" and big: "L < int (length ms)"
  shows "partitions_split self L =
           Inr (Lst (map (\<lambda>x. Lst (map Model (take (nat L) (drop (x * nat L) ms))))
                      [0..<nat \<lceil>real (length ms) / real_of_int L\<rceil>]))"
proof -
  have nz: "L \<noteq> 0" using L by simp
  have sl: "\<And>x. slice_list (map Model ms) (int x * L) ((int x + 1) * L)
              = map Model (take (nat L) (drop (x * nat L) ms))"
    by (simp only: slice_list_chunk[OF L] take_map drop_map)
  show ?thesis
    using big nz
    by (simp add: partitions_split_def am ceil_div_def py_range_def mapM_Inr sl comp_def)
qed

text \<open>
  Claim C1, as amended. For a stored list of models and a positive \<open>partition_length\<close>:
  when the list has at most \<open>partition_length\<close> elements, \<open>partitions_split\<close> returns
  a copy of the list itself, the models not wrapped in a batch; otherwise it returns
  \<open>ceil(len / partition_length)\<close> batches whose concatenation is the original list,
  batch \<open>i\<close> holding the elements at the positions from \<open>i * partition_length\<close> on, in
  order (so the batches are disjoint), each of exactly \<open>partition_length\<close> models except
  the last, which has between one and \<open>partition_length\<close>.
\<close>

theorem partitions_split_batches:
  assumes "0 < L" and "all_models self = Lst (map Model ms)"
  shows "(int (length ms) \<le> L \<longrightarrow> partitions_split self L = Inr (Lst (map Model ms))) \<and>
         (L < int (length ms) \<longrightarrow>
            (\<exists>bs. partitions_split self L = Inr (Lst (map (\<lambda>b. Lst (map Model b)) bs)) \<and>
                  concat bs = ms \<and>
                  int (length bs) = \<lceil>real (length ms) / real_of_int L\<rceil> \<and>
                  (\<forall>i<length bs. bs ! i = take (nat L) (drop (i * nat L) ms)) \<and>
                  (\<forall>i. Suc i < length bs \<longrightarrow> int (length (bs ! i)) = L) \<and>
                  last bs \<noteq> [] \<and> int (length (last bs)) \<le> L))"
proof (intro conjI impI)
  assume "int (length ms) \<le> L"
  then show "partitions_split self L = Inr (Lst (map Model ms))"
    by (rule partitions_split_small[OF assms(2)])
next
  assume big: "L < int (length ms)"
  define l where "l = nat L"
  define bs where "bs = map (\<lambda>x. take l (drop (x * l) ms)) [0..<nat \<lceil>real (length ms) / real l\<rceil>]"
  have l: "0 < l" and rl: "real_of_int L = real l" and il: "int l = L"
    using assms(1) by (simp_all add: l_def)
  have ne: "ms \<noteq> []" using big assms(1) by auto
  note props = blocks_props[OF l ne bs_def]
  have "partitions_split self L = Inr (Lst (map (\<lambda>b. Lst (map Model b)) bs))"
    using partitions_split_large[OF assms big]
    using rl by (simp add: bs_def l_def comp_def del: of_nat_nat)
  moreover have "\<forall>i. Suc i < length bs \<longrightarrow> int (length (bs ! i)) = L"
    using props(4) il by auto
  moreover have "int (length (last bs)) \<le> L" using props(6) il by linarith
  moreover have "\<forall>i<length bs. bs ! i = take (nat L) (drop (i * nat L) ms)"
    using props(3) by (simp add: l_def)
  ultimately show "\<exists>bs. partitions_split self L = Inr (Lst (map (\<lambda>b. Lst (map Model b)) bs)) \<and>
                  concat bs = ms \<and>
                  int (length bs) = \<lceil>real (length ms) / real_of_int L\<rceil> \<and>
                  (\<forall>i<length bs. bs ! i = take (nat L) (drop (i * nat L) ms)) \<and>
                  (\<forall>i. Suc i < length bs \<longrightarrow> int (length (bs ! i)) = L) \<and>
                  last bs \<noteq> [] \<and> int (length (last bs)) \<le> L"
    using props(1,2,5) rl by (intro exI[of _ bs]) simp
qed

text \<open>The theorem at a list of two and a list of five models, with partition length 2.\<close>

theorem partitions_split_batches_witness:
  "partitions_split (example_self (Lst (map Model [1, 2]))) 2 = Inr (Lst (map Model [1, 2])) \<and>
   (\<exists>bs. partitions_split (example_self (Lst (map Model [1, 2, 3, 4, 5]))) 2
           = Inr (Lst (map (\<lambda>b. Lst (map Model b)) bs)) \<and>
         concat bs = [1, 2, 3, 4, 5] \<and> int (length bs) = 3 \<and> last bs \<noteq> [])"
proof -
  have a: "all_models (example_self (Lst (map Model [1, 2]))) = Lst (map Model [1, 2])"
    by (simp add: example_self_def)
  have b: "all_models (example_self (Lst (map Model [1, 2, 3, 4, 5]))) = Lst (map Model [1, 2, 3, 4, 5])"
    by (simp add: example_self_def)
  have pos: "(0::int) < 2" by simp
  show ?thesis
    using partitions_split_batches[OF pos a] partitions_split_batches[OF pos b]
    by auto
qed

text \<open>
  Claim C1 as stated fails for a list that fits into one partition: the result for two
  models and the default length 60 is the list of the two models, not a one-element
  list holding a batch of two.
\<close>

theorem partitions_split_single_batch_counterexample:
  "partitions_split (example_self (Lst [Model 1, Model 2])) 60 = Inr (Lst [Model 1, Model 2])
   \<and> partitions_split (example_self (Lst [Model 1, Model 2])) 60
       \<noteq> Inr (Lst [Lst [Model 1, Model 2]])"
  by (simp add: partitions_split_def example_self_def py_list_def)

subsection \<open>Decimal strings: \<open>int(str(k)) = k\<close>\<close>

lemma of_char_digit_char: "d < 10 \<Longrightarrow> of_char (digit_char d) = 48 + d"
  by (simp add: digit_char_def)

lemma is_digit_digit_char: "d < 10 \<Longrightarrow> is_digit (digit_char d)"
  by (simp add: is_digit_def of_char_digit_char)

lemma digit_val_digit_char: "d < 10 \<Longrightarrow> digit_val (digit_char d) = d"
  by (simp add: digit_val_def of_char_digit_char)

lemma str_nat_digits: "list_all is_digit (str_nat n)"
proof (induction n rule: str_nat.induct)
  case (1 n)
  show ?case
  proof (cases "n < 10")
    case True
    then show ?thesis by (subst str_nat.simps) (simp add: is_digit_digit_char)
  next
    case False
    then show ?thesis using 1 by (subst str_nat.simps) (simp add: is_digit_digit_char)
  qed
qed

lemma str_nat_nonempty: "str_nat n \<noteq> []"
  by (subst str_nat.simps) simp

lemma nat_of_digits_snoc: "nat_of_digits (s @ [c]) = 10 * nat_of_digits s + digit_val c"
  by (simp add: nat_of_digits_def)

lemma nat_of_digits_str_nat: "nat_of_digits (str_nat n) = n"
proof (induction n rule: str_nat.induct)
  case (1 n)
  show ?case
  proof (cases "n < 10")
    case True
    then show ?thesis
      by (subst str_nat.simps) (simp add: nat_of_digits_def digit_val_digit_char)
  next
    case False
    then have "nat_of_digits (str_nat (n div 10)) = n div 10" using 1 by simp
    with False show ?thesis
      by (subst str_nat.simps) (simp add: nat_of_digits_snoc digit_val_digit_char)
  qed
qed

lemma parse_nat_str_nat: "parse_nat (str_nat n) = Inr n"
  by (simp add: parse_nat_def str_nat_nonempty str_nat_digits nat_of_digits_str_nat)

lemma is_digit_not_sign: "is_digit c \<Longrightarrow> c \<noteq> CHR ''-'' \<and> c \<noteq> CHR ''+''"
  by (auto simp: is_digit_def)

lemma py_int_str_int: "py_int (str_int k) = Inr k"
proof (cases "k < 0")
  case True
  then show ?thesis by (simp add: str_int_def parse_nat_str_nat)
next
  case False
  obtain c s where cs: "str_nat (nat k) = c # s"
    using str_nat_nonempty[of "nat k"] by (cases "str_nat (nat k)") auto
  have "is_digit c" using str_nat_digits[of "nat k"] by (simp add: cs)
  then have "c \<noteq> CHR ''-''" "c \<noteq> CHR ''+''" using is_digit_not_sign by blast+
  moreover have "parse_nat (c # s) = Inr (nat k)"
    using parse_nat_str_nat[of "nat k"] by (simp add: cs)
  ultimately show ?thesis using False by (simp add: str_int_def cs)
qed

lemma str_int_inj: "str_int a = str_int b \<Longrightarrow> a = b"
proof -
  assume "str_int a = str_int b"
  then have "py_int (str_int a) = py_int (str_int b)" by simp
  then show "a = b" by (simp add: py_int_str_int)
qed

lemma str_int_chars: "c \<in> set (str_int k) \<Longrightarrow> c = CHR ''-'' \<or> is_digit c"
  using str_nat_digits by (auto simp: str_int_def list_all_iff split: if_splits)

lemma split_char_absent: "c \<notin> set s \<Longrightarrow> split_char c s = [s]"
  by (induction s) (auto simp: Let_def)

lemma s_not_in_str_int: "CHR ''s'' \<notin> set (str_int k)"
  using str_int_chars[of "CHR ''s''" k] by (auto simp: is_digit_def)

lemma key_number_models_key: "key_number (models_key k) = Inr k"
  by (simp add: key_number_def models_key_def split_char_absent[OF s_not_in_str_int]
      index_def Let_def py_int_str_int)

lemma models_key_inj: "models_key a = models_key b \<Longrightarrow> a = b"
  by (simp add: models_key_def str_int_inj)

lemma models_key_60: "models_key 60 = ''models60''" and models_key_120: "models_key 120 = ''models120''"
  by code_simp+

lemma mapM_key_number: "mapM key_number (map (\<lambda>x. models_key (f x)) xs) = Inr (map f xs)"
  by (induction xs) (simp_all add: key_number_models_key)

subsection \<open>The dictionary of partitions\<close>

lemma update_fresh: "k \<notin> fst ` set al \<Longrightarrow> AList.update k v al = al @ [(k, v)]"
  by (induction al) auto

lemma fold_update_fresh:
  "distinct (map f xs) \<Longrightarrow> f ` set xs \<inter> fst ` set acc = {} \<Longrightarrow>
   fold (\<lambda>x d. AList.update (f x) (g x) d) xs acc = acc @ map (\<lambda>x. (f x, g x)) xs"
proof (induction xs arbitrary: acc)
  case Nil
  show ?case by simp
next
  case (Cons x xs)
  have fresh: "f x \<notin> fst ` set acc" using Cons.prems(2) by auto
  have d: "distinct (map f xs)" and nx: "f x \<notin> f ` set xs" using Cons.prems(1) by auto
  have disj: "f ` set xs \<inter> fst ` set (acc @ [(f x, g x)]) = {}"
    using Cons.prems(2) nx by auto
  show ?case
    by (simp add: update_fresh[OF fresh] Cons.IH[OF d disj])
qed

lemma dict_partitions_small:
  assumes am: "all_models self = Lst (map Model ms)" and small: "int (length ms) \<le> L"
  shows "dict_partitions self L = Inr [(models_key L, Lst (map Model ms))]"
  using small by (simp add: dict_partitions_def am partitions_split_small[OF am small])

lemma dict_partitions_large:
  assumes L: "0 < L" and am: "all_models self = Lst (map Model ms)" and big: "L < int (length ms)"
  shows "dict_partitions self L =
           Inr (map (\<lambda>x. (models_key ((int x + 1) * L),
                           Lst (map Model (take (nat L) (drop (x * nat L) ms)))))
                    [0..<nat \<lceil>real (length ms) / real_of_int L\<rceil>])"
proof -
  let ?k = "nat \<lceil>real (length ms) / real_of_int L\<rceil>"
  let ?f = "\<lambda>x. models_key ((int x + 1) * L)"
  let ?g = "\<lambda>x. Lst (map Model (take (nat L) (drop (x * nat L) ms)))"
  have ps: "partitions_split self L = Inr (Lst (map ?g [0..<?k]))"
    by (rule partitions_split_large[OF L am big])
  have inj: "inj_on ?f (set [0..<?k])"
    using L by (auto simp: inj_on_def dest!: models_key_inj)
  have dist: "distinct (map ?f [0..<?k])" using inj by (simp add: distinct_map)
  have fd: "fold (\<lambda>x d. AList.update (?f x) (?g x) d) [0..<?k] []
              = [] @ map (\<lambda>x. (?f x, ?g x)) [0..<?k]"
    by (rule fold_update_fresh[OF dist]) simp
  have "dict_partitions self L
          = Inr (fold (\<lambda>(ind, p) d. AList.update (?f ind) p d)
                   (map (\<lambda>x. (x, ?g x)) [0..<?k]) [])"
    using big by (simp add: dict_partitions_def am ps enumerate_map_upt)
  also have "\<dots> = Inr (fold (\<lambda>x d. AList.update (?f x) (?g x) d) [0..<?k] [])"
    by (simp add: fold_map comp_def)
  finally show ?thesis using fd by simp
qed

text \<open>
  Claim C7. For a stored list of models and a positive \<open>partition_length\<close>, the
  dictionary of \<open>dict_partitions\<close> has the single key \<open>models<partition_length>\<close>
  (holding the whole list) when the list has at most \<open>partition_length\<close> elements, and
  otherwise holds batch number \<open>index\<close> (from 0) under the key
  \<open>models<(index + 1) * partition_length>\<close>, in this order; the number that
  \<open>get_partition_number\<close> reads back from each key is \<open>partition_length\<close>, respectively
  \<open>(index + 1) * partition_length\<close>, and for the default length 60 these are the
  numbers it returns.
\<close>

theorem dict_partitions_keys:
  assumes "0 < L" and "all_models self = Lst (map Model ms)"
  shows "\<exists>d. dict_partitions self L = Inr d \<and>
           d = (if int (length ms) \<le> L then [(models_key L, Lst (map Model ms))]
                else map (\<lambda>ind. (models_key ((int ind + 1) * L),
                                   Lst (map Model (take (nat L) (drop (ind * nat L) ms)))))
                       [0..<nat \<lceil>real (length ms) / real_of_int L\<rceil>]) \<and>
           mapM key_number (map fst d) =
             Inr (if int (length ms) \<le> L then [L]
                  else map (\<lambda>ind. (int ind + 1) * L)
                         [0..<nat \<lceil>real (length ms) / real_of_int L\<rceil>]) \<and>
           (L = 60 \<longrightarrow> get_partition_number self = mapM key_number (map fst d))"
proof (cases "int (length ms) \<le> L")
  case True
  then show ?thesis
    using dict_partitions_small[OF assms(2) True]
    by (auto simp: key_number_models_key get_partition_number_def)
next
  case False
  then have big: "L < int (length ms)" by simp
  show ?thesis
    using False dict_partitions_large[OF assms big]
      mapM_key_number[of "\<lambda>ind. (int ind + 1) * L"]
    by (auto simp: comp_def get_partition_number_def)
qed

text \<open>
  The theorem at 61 models and the default length 60: the keys \<open>models60\<close> and
  \<open>models120\<close>, read back as 60 and 120.
\<close>

theorem dict_partitions_keys_witness:
  "\<exists>d. dict_partitions (example_self (Lst (map Model [0..<61]))) 60 = Inr d \<and>
       map fst d = [''models60'', ''models120''] \<and>
       get_partition_number (example_self (Lst (map Model [0..<61]))) = Inr [60, 120]"
proof -
  have am: "all_models (example_self (Lst (map Model [0..<61]))) = Lst (map Model [0..<61])"
    by (simp add: example_self_def)
  have pos: "(0::int) < 60" by simp
  have k: "nat \<lceil>real (length [0..<61::nat]) / real_of_int 60\<rceil> = 2" by simp
  show ?thesis
    using dict_partitions_keys[OF pos am]
    by (simp add: k models_key_60 models_key_120 upt_rec comp_def)
qed

text \<open>
  Claim C10. On a freshly constructed instance \<open>self.all_models\<close> is the empty string:
  \<open>partitions_split\<close> returns an empty list and \<open>dict_partitions\<close> a dictionary with the
  one key of the single batch, holding an empty batch; neither raises. This holds for
  the default partition length 60 and for every non-negative one.
\<close>

theorem fresh_instance_partitions:
  assumes "init input_data model_params model_hp_params running_mode = Inr self"
    and "0 \<le> L"
  shows "all_models self = Str '''' \<and>
         partitions_split self L = Inr (Lst []) \<and>
         dict_partitions self L = Inr [(models_key L, Lst [])] \<and>
         dict_partitions self 60 = Inr [(''models60'', Lst [])]"
proof -
  have am: "all_models self = Str ''''"
    using assms(1) by (auto simp: init_def split: if_splits)
  have ps: "\<And>K. 0 \<le> K \<Longrightarrow> partitions_split self K = Inr (Lst [])"
    by (simp add: partitions_split_def am py_list_def)
  have dp: "\<And>K. 0 \<le> K \<Longrightarrow> dict_partitions self K = Inr [(models_key K, Lst [])]"
    by (simp add: dict_partitions_def am ps)
  show ?thesis
    using am ps[OF assms(2)] dp[OF assms(2)] dp[of 60] by (simp add: models_key_60)
qed

theorem fresh_instance_partitions_witness:
  "\<exists>self :: (unit, unit, nat) Model_Development.
      init () example_params example_hyper ''full'' = Inr self \<and>
      all_models self = Str '''' \<and> partitions_split self 60 = Inr (Lst []) \<and>
      dict_partitions self 60 = Inr [(''models60'', Lst [])]"
proof -
  have i: "init () example_params example_hyper ''full''
             = Inr (example_self (Str '''') :: (unit, unit, nat) Model_Development)"
    by (simp add: init_def example_self_def)
  have pos: "(0::int) \<le> 60" by simp
  show ?thesis
    using fresh_instance_partitions[OF i pos] i by (simp add: models_key_60)
qed

section \<open>Properties of the combination generator\<close>

lemma product5_empty:
  "as = [] \<or> bs = [] \<or> cs = [] \<or> ds = [] \<or> es = [] \<Longrightarrow> product5 as bs cs ds es = []"
  by (auto simp: product5_def)

text \<open>
  Claim C8, as amended. For an instance whose hyperparameter ranges include an empty
  range, the combination generator returns the empty sequence of combinations, in both
  running modes; it raises no error, and neither does the constructor.
\<close>

theorem all_combinations_empty_range:
  assumes "init input_data model_params hp running_mode = Inr self"
    and "filter_num1 hp = [] \<or> filter_num2 hp = [] \<or> num_of_dense hp = [] \<or>
         dense_len1 hp = [] \<or> dense_len2 hp = []"
  shows "all_combinations self = Some []"
proof -
  have hp: "hyper_params self = hp" and m: "mode self = ''full'' \<or> mode self = ''test''"
    using assms(1) by (auto simp: init_def split: if_splits)
  have "product5 (filter_num1 hp) (filter_num2 hp) (num_of_dense hp) (dense_len1 hp)
          (dense_len2 hp) = []"
    by (rule product5_empty[OF assms(2)])
  then show ?thesis using m by (auto simp: all_combinations_def hp)
qed

theorem all_combinations_empty_range_witness:
  "\<exists>self :: (unit, unit, nat) Model_Development.
     init () example_params (example_hyper\<lparr>num_of_dense := []\<rparr>) ''test'' = Inr self \<and>
     all_combinations self = Some []"
proof -
  have i: "init () example_params (example_hyper\<lparr>num_of_dense := []\<rparr>) ''test''
             = Inr (\<lparr>data = (), params = example_params,
                     hyper_params = example_hyper\<lparr>num_of_dense := []\<rparr>,
                     mode = ''test'', all_models = Str ''''\<rparr> :: (unit, unit, nat) Model_Development)"
    by (simp add: init_def)
  have e: "filter_num1 (example_hyper\<lparr>num_of_dense := []\<rparr>) = [] \<or>
           filter_num2 (example_hyper\<lparr>num_of_dense := []\<rparr>) = [] \<or>
           num_of_dense (example_hyper\<lparr>num_of_dense := []\<rparr>) = [] \<or>
           dense_len1 (example_hyper\<lparr>num_of_dense := []\<rparr>) = [] \<or>
           dense_len2 (example_hyper\<lparr>num_of_dense := []\<rparr>) = []"
    by simp
  show ?thesis
    using all_combinations_empty_range[OF i e] i by simp
qed

text \<open>
  Claim C8 as stated fails: with an empty first range and the mode \<open>"full"\<close> the
  constructor succeeds and the generator returns the empty sequence.
\<close>

theorem all_combinations_empty_range_counterexample:
  "init () example_params (example_hyper\<lparr>filter_num1 := []\<rparr>) ''full''
     = Inr (example_self (Str '''')\<lparr>hyper_params := example_hyper\<lparr>filter_num1 := []\<rparr>\<rparr>)
   \<and> all_combinations (example_self (Str '''')\<lparr>hyper_params := example_hyper\<lparr>filter_num1 := []\<rparr>\<rparr>)
       = Some []"
  by (simp add: init_def example_self_def all_combinations_def product5_def)

section \<open>Properties of the model factory\<close>

lemma layers_add: "layers (add l model) = layers model @ [l]"
  by (simp add: add_def)

lemma layers_dense_blocks:
  "layers (fold (dense_block d1 d2 init_method) xs model) =
     layers model @
     concat (map (\<lambda>i. [Dense (if i < 1 then d1 else d2) True init_method init_method,
                         PReLU init_method]) xs)"
  by (induction xs arbitrary: model) (simp_all add: dense_block_def layers_add)

lemma floor_half_div: "floor_half filter_size = filter_size div 2"
proof -
  have "\<lfloor>(of_int filter_size :: real) / of_int 2\<rfloor> = filter_size div 2"
    by (rule floor_divide_of_int_eq)
  then show ?thesis by (simp add: floor_half_def)
qed

text \<open>
  Claim C9, as amended. The model built for a combination has the fixed topology: a
  convolution with \<open>conv1_filter_num\<close> filters and kernel \<open>filter_size\<close>, activation,
  pooling, a second convolution whose filter count is the combination's
  \<open>conv2_filter_num\<close> and whose kernel size is \<open>floor(filter_size / 2)\<close> (2 for the default
  \<open>filter_size\<close> of 5), activation, pooling, flatten, \<open>N\<close> dense blocks where block 1 has
  width \<open>d1\<close> and blocks 2 to \<open>N\<close> have width \<open>d2\<close>, and a single-unit output.
\<close>

theorem model_builder_topology:
  "layers (model_builder shape_tail self f1 f2 n d1 d2 init_method filter_size) =
     [Conv1D f1 filter_size 1 ''same'' True (Some (shape_tail (data self))) init_method init_method,
      PReLU init_method, MaxPool1D,
      Conv1D f2 (filter_size div 2) 1 ''same'' True None init_method init_method,
      PReLU init_method, MaxPool1D, Flatten] @
     concat (map (\<lambda>block. [Dense (if block = 0 then d1 else d2) True init_method init_method,
                             PReLU init_method]) [0..<nat n]) @
     [Dense 1 True init_method init_method, PReLU init_method]
   \<and> floor_half 5 = 2"
proof -
  have blocks: "map (\<lambda>i. [Dense (if i < 1 then d1 else d2) True init_method init_method,
                           PReLU init_method]) (py_range n)
                = map (\<lambda>block. [Dense (if block = 0 then d1 else d2) True init_method init_method,
                                 PReLU init_method :: ('a, 'b) layer]) [0..<nat n]"
    by (simp add: py_range_def comp_def)
  have "floor_half 5 = 2" by (simp add: floor_half_div)
  then show ?thesis
    by (simp add: model_builder_def Let_def layers_add layers_dense_blocks blocks
        Sequential_def floor_half_div)
qed

text \<open>
  Claim C9 as stated fails: for the combination \<open>(4, 8, 1, 16, 16)\<close> and the default
  \<open>filter_size\<close> the second convolution has 8 filters, and 2 is its kernel size.
\<close>

theorem model_builder_filters_counterexample:
  "filters (layers (model_builder (\<lambda>d. ()) (example_self (Str '''')) 4 8 1 16 16 () 5) ! 3) = 8
   \<and> kernel_size (layers (model_builder (\<lambda>d. ()) (example_self (Str '''')) 4 8 1 16 16 () 5) ! 3) = 2
   \<and> filters (layers (model_builder (\<lambda>d. ()) (example_self (Str '''')) 4 8 1 16 16 () 5) ! 3)
       \<noteq> floor_half 5"
  by (simp add: model_builder_def Let_def layers_add layers_dense_blocks Sequential_def
      floor_half_div nth_append numeral_3_eq_3)

section \<open>Properties of the resume guard\<close>

lemma py_replace_models_absent:
  "CHR ''m'' \<notin> set s \<Longrightarrow> py_replace ''models'' new s = s"
  by (induction s) auto

lemma m_not_in_str_int: "CHR ''m'' \<notin> set (str_int k)"
  using str_int_chars[of "CHR ''m''" k] by (auto simp: is_digit_def)

lemma py_replace_models_key:
  "py_replace ''models'' ''report'' (models_key k) = ''report'' @ str_int k"
  by (simp add: models_key_def py_replace_models_absent[OF m_not_in_str_int])

text \<open>
  Claim C6. For a batch key \<open>K\<close>, \<open>existence_check\<close> on the partition key
  \<open>models<K>\<close> is true exactly when some name in the current working directory starts
  with \<open>report<K>\<close>; and when the check of a partition key is true, the automatic grid
  search only prints a line for that batch: no directory is made, no model is fitted
  or saved, no report is written, and the accumulated report is unchanged.
\<close>

theorem existence_check_prefix_and_skip:
  "(existence_check (models_key K) w
      \<longleftrightarrow> (\<exists>file \<in> set (listdir w). prefix (''report'' @ str_int K) file)) \<and>
   (existence_check part w \<longrightarrow>
      auto_grid_cv_part fit self training_data targets callback_list series_cv partitions
          partition_numb now (w, l) (numb_ind, part)
        = Inr (w\<lparr>stdout := stdout w @ [''Report already exists'']\<rparr>, l))"
  by (simp add: existence_check_def py_replace_models_key list_ex_iff auto_grid_cv_part_def
      print_def)

text \<open>
  The theorem in a directory that holds \<open>report60_20200101_000000.csv\<close>: the batch
  \<open>models60\<close> is skipped.
\<close>

theorem existence_check_prefix_and_skip_witness:
  "existence_check ''models60'' (empty_world\<lparr>listdir := [''report60_20200101_000000.csv'']\<rparr>) \<and>
   auto_grid_cv_part example_fit (example_self (Lst [Model 0])) [] [] () []
       [(''models60'', Lst [Model 0])] [60] ''T''
       (empty_world\<lparr>listdir := [''report60_20200101_000000.csv'']\<rparr>,
        \<lparr>report = empty_frame, history = None\<rparr>) (0, ''models60'')
     = Inr (empty_world\<lparr>listdir := [''report60_20200101_000000.csv''],
                         stdout := [''Report already exists'']\<rparr>,
            \<lparr>report = empty_frame, history = None\<rparr>)"
proof -
  let ?w = "empty_world\<lparr>listdir := [''report60_20200101_000000.csv'']\<rparr>"
  let ?l = "\<lparr>report = empty_frame, history = None\<rparr> :: nat locals"
  note inst = existence_check_prefix_and_skip[where K = 60 and w = "?w" and part = "''models60''"
      and fit = example_fit and self = "example_self (Lst [Model 0])" and training_data = "[]"
      and targets = "[]" and callback_list = "()" and series_cv = "[]"
      and partitions = "[(''models60'', Lst [Model 0])]" and partition_numb = "[60]"
      and now = "''T''" and l = "?l" and numb_ind = 0]
  have s: "str_int 60 = ''60''" by code_simp
  have "\<exists>file \<in> set (listdir ?w). prefix (''report'' @ str_int 60) file"
    by (simp add: s)
  then have e: "existence_check ''models60'' ?w"
    using inst by (simp only: models_key_60)
  moreover have "auto_grid_cv_part example_fit (example_self (Lst [Model 0])) [] [] () []
       [(''models60'', Lst [Model 0])] [60] ''T'' (?w, ?l) (0, ''models60'')
     = Inr (?w\<lparr>stdout := stdout ?w @ [''Report already exists'']\<rparr>, ?l)"
    using inst e by blast
  ultimately show ?thesis by (simp add: empty_world_def)
qed

section \<open>Properties of the cross-validation trainer\<close>

subsection \<open>The calls to \<open>fit\<close> for one model\<close>



subsection \<open>The calls to \<open>fit\<close> for a batch\<close>


subsection \<open>What training a partition writes\<close>









subsection \<open>The calls to \<open>fit\<close> in the training functions\<close>







subsection \<open>The model index\<close>




subsection \<open>The data passed to \<open>fit\<close>\<close>

text \<open>
  Claim C3 at six rows and two folds, whose train and validation ranges are
  \<open>[0, 2)\<close>, \<open>[2, 4)\<close> and \<open>[0, 4)\<close>, \<open>[4, 6)\<close>. The calls to \<open>fit\<close> get the training rows
  of \<open>[0, 2)\<close> and \<open>[0, 4)\<close>, as the claim says; the validation rows of both calls are the
  rows 10 and 11 of \<open>[0, 2)\<close>, the first rows of the training data, where the claim has
  the rows 12, 13 and 14, 15 that follow the train range: the code slices the data with
  \<open>[:len(series_cv[i][1])]\<close>, the number of validation indices.
\<close>

theorem validation_data_is_training_prefix:
  "map_option (map (\<lambda>c. (arg_x (fst c), fst (arg_validation_data (fst c)))) \<circ> fit_calls)
     (case auto_grid_cv example_split example_fit ''T'' (example_self (Lst [Model 0]))
             [10, 11, 12, 13, 14, 15] [20, 21, 22, 23, 24, 25] () empty_world of
        Inl e \<Rightarrow> None | Inr w \<Rightarrow> Some w)
   = Some [([10, 11], [10, 11]), ([10, 11, 12, 13], [10, 11])]"
  by code_simp

text \<open>The same holds for every fold and both training functions, which share the call.\<close>

lemma validation_data_take:
  "arg_validation_data (fold_fit_args self training_data targets callback_list (train, test))
     = (take (length test) training_data, take (length test) targets)"
  by (simp add: fold_fit_args_def)

subsection \<open>The report of a batch\<close>

text \<open>
  Claim C2 at 61 models in an empty directory: the batches \<open>models60\<close>, of 60 models, and
  \<open>models120\<close>, of one. The report file of the second batch holds a row for each of the
  61 models, the 60 rows of the first batch before the row of its own model 60:
  \<open>report\<close> is created once, before the loop over the batches.
\<close>

theorem auto_grid_cv_report_accumulates:
  "map_option (\<lambda>df. column df ''models'')
     (case auto_grid_cv example_split example_fit ''T'' (example_self (Lst (map Model [0..<61])))
             [10, 11, 12, 13, 14, 15] [20, 21, 22, 23, 24, 25] () empty_world of
        Inl e \<Rightarrow> None | Inr w \<Rightarrow> map_of (csv_files w) ''report120_T.csv'')
   = Some (map (\<lambda>i. IntCell (int i)) [0..<61])"
  by code_simp

text \<open>
  \<open>manual_grid_cv\<close> creates \<open>report\<close> at each call: run on the second batch alone it
  writes the one row of model 60.
\<close>

lemma manual_grid_cv_report_fresh:
  "map_option (\<lambda>df. column df ''models'')
     (case manual_grid_cv example_split example_fit ''T''
             (example_self (Lst (map Model [0..<61]))) (Lst [Model 60]) 120
             [10, 11, 12, 13, 14, 15] [20, 21, 22, 23, 24, 25] () empty_world of
        Inl e \<Rightarrow> None | Inr w \<Rightarrow> map_of (csv_files w) ''report120_T.csv'')
   = Some [IntCell 60]"
  by code_simp

end
